theory Spec2Isabelle
  imports Complex_Main "HOL-Library.Sublist"
begin

section \<open>Data model\<close>

text \<open>
  Shallow embedding of the order and cart services of the KmerCart backend
  (\<^verbatim>\<open>orders.service.ts\<close>, \<^verbatim>\<open>cart.service.ts\<close>).

  A document identifier (a Mongo ObjectId) is represented by the string that
  \<^verbatim>\<open>toString()\<close> gives for it.
  JavaScript numbers are modelled exactly: quantities, stock and counters as \<^typ>\<open>int\<close>,
  money as \<^typ>\<open>rat\<close>. The three collections the services read and write are the
  components of the record \<open>store\<close>; every service method takes the store and returns its
  result (an exception as \<open>Inl\<close>) together with the store it leaves behind.
\<close>

text \<open>The subset of \<^verbatim>\<open>Date\<close> the services use; \<open>getMonth\<close> counts from 0 as in JavaScript.\<close>

record date =
  getFullYear :: nat
  getMonth :: nat
  getDate :: nat
  getTime :: nat

text \<open>
  Modelled from the spec: the enum \<^verbatim>\<open>OrderStatus\<close> of \<^verbatim>\<open>schemas/order.schema\<close> is not among
  the sources; the services name the members \<open>PENDING\<close>, \<open>CONFIRMED\<close>, \<open>PROCESSING\<close>,
  \<open>SHIPPED\<close>, \<open>DELIVERED\<close> and \<open>CANCELLED\<close>, which are the six states of the specification.
\<close>

datatype OrderStatus = PENDING | CONFIRMED | PROCESSING | SHIPPED | DELIVERED | CANCELLED

text \<open>
  Modelled from the spec: the enum \<^verbatim>\<open>PaymentStatus\<close> of the same schema file; the services
  use its member \<open>PENDING\<close> only.
\<close>

datatype PaymentStatus = PaymentStatus_PENDING | PaymentStatus_other string

text \<open>Modelled from the spec: the string value of a status, as interpolated into a note.\<close>

fun OrderStatus_value :: "OrderStatus \<Rightarrow> string" where
  "OrderStatus_value PENDING = ''PENDING''"
| "OrderStatus_value CONFIRMED = ''CONFIRMED''"
| "OrderStatus_value PROCESSING = ''PROCESSING''"
| "OrderStatus_value SHIPPED = ''SHIPPED''"
| "OrderStatus_value DELIVERED = ''DELIVERED''"
| "OrderStatus_value CANCELLED = ''CANCELLED''"

text \<open>The fields of a product document that the two services read or write.\<close>

record product =
  p_vendorId :: string
  p_name :: string
  p_mainImage :: "string option"
  p_images :: "string list"
  p_price :: rat
  p_discount :: "rat option"
  p_stock :: int
  p_totalSales :: int
  p_isActive :: bool

record cart_item =
  ci_productId :: string
  ci_quantity :: int
  ci_price :: rat
  ci_addedAt :: nat


record order_item =
  oi_productId :: string
  oi_vendorId :: string
  oi_name :: string
  oi_image :: "string option"
  oi_quantity :: int
  oi_price :: rat
  oi_discount :: rat
  oi_total :: rat

record status_entry =
  h_status :: OrderStatus
  h_timestamp :: nat
  h_note :: string

record ShippingAddressDto =
  fullName :: string
  street :: string
  city :: string
  state :: string
  zipCode :: string
  country :: string
  phone :: string

record CreateOrderDto =
  dto_paymentMethod :: string
  dto_shippingAddress :: ShippingAddressDto
  dto_billingAddress :: "ShippingAddressDto option"
  dto_shippingCost :: "rat option"
  dto_discount :: "rat option"
  dto_notes :: "string option"

record order =
  o_orderNumber :: string
  o_customerId :: string
  o_items :: "order_item list"
  o_subtotal :: rat
  o_tax :: rat
  o_taxRate :: rat
  o_shippingCost :: rat
  o_discount :: rat
  o_total :: rat
  o_currency :: string
  o_status :: OrderStatus
  o_paymentStatus :: PaymentStatus
  o_paymentMethod :: string
  o_shippingAddress :: ShippingAddressDto
  o_billingAddress :: ShippingAddressDto
  o_notes :: "string option"
  o_statusHistory :: "status_entry list"
  o_deliveredAt :: "nat option"

text \<open>
  The collections. A product and a cart are found by key (\<^verbatim>\<open>_id\<close>, \<^verbatim>\<open>userId\<close>). Orders are
  only ever inserted and saved, never deleted, so the order collection is the list of its
  documents in insertion order and an order's \<^verbatim>\<open>_id\<close> is its position in that list.
  \<open>vendors\<close> maps the identifier of each existing vendor document to its
  \<^verbatim>\<open>businessName\<close>: \<^verbatim>\<open>populate('items.vendorId', 'businessName')\<close> reads it.
\<close>

record store =
  products :: "string \<rightharpoonup> product"
  carts :: "string \<rightharpoonup> cart_item list"
  orders :: "order list"
  vendors :: "string \<rightharpoonup> string"

datatype bad_request =
    CartIsEmpty
  | ProductNoLongerAvailable string
  | InsufficientStock string int
  | CannotBeCancelled

text \<open>\<open>TypeError\<close> is the runtime error of reading a property of \<^verbatim>\<open>null\<close>.\<close>

datatype error =
    NotFoundException
  | BadRequestException bad_request
  | ForbiddenException
  | TypeError

section \<open>Order numbers\<close>

fun digit_char :: "nat \<Rightarrow> char" where
  "digit_char n = char_of (48 + n)"

text \<open>\<^verbatim>\<open>String(n)\<close> for a non-negative integer: its decimal digits.\<close>

fun String_nat :: "nat \<Rightarrow> string" where
  "String_nat n = (if n < 10 then [digit_char n] else String_nat (n div 10) @ [digit_char (n mod 10)])"

declare String_nat.simps [simp del]

definition padStart :: "nat \<Rightarrow> char \<Rightarrow> string \<Rightarrow> string" where
  "padStart targetLength c str = replicate (targetLength - length str) c @ str"

text \<open>
  \<^verbatim>\<open>generateOrderNumber\<close>: the date, then \<^verbatim>\<open>countDocuments() + 1\<close> over the order
  collection, padded to six digits.
\<close>

definition generateOrderNumber :: "date \<Rightarrow> store \<Rightarrow> string" where
  "generateOrderNumber date s =
     (let year = getFullYear date;
          month = padStart 2 CHR ''0'' (String_nat (getMonth date + 1));
          day = padStart 2 CHR ''0'' (String_nat (getDate date));
          count = length (orders s);
          orderNum = padStart 6 CHR ''0'' (String_nat (count + 1))
      in ''ORD'' @ String_nat year @ month @ day @ orderNum)"

section \<open>Creating an order from the cart\<close>

text \<open>\<^verbatim>\<open>a || b\<close> on an optional number: \<^verbatim>\<open>undefined\<close> and \<open>0\<close> both give \<open>b\<close>.\<close>

definition or_zero :: "rat option \<Rightarrow> rat" where
  "or_zero x = (case x of None \<Rightarrow> 0 | Some v \<Rightarrow> v)"

text \<open>\<^verbatim>\<open>product.mainImage || product.images[0]\<close>; the empty string is falsy.\<close>

definition item_image :: "product \<Rightarrow> string option" where
  "item_image product =
     (case p_mainImage product of
        Some m \<Rightarrow> if m \<noteq> [] then Some m else (case p_images product of [] \<Rightarrow> None | x # _ \<Rightarrow> Some x)
      | None \<Rightarrow> (case p_images product of [] \<Rightarrow> None | x # _ \<Rightarrow> Some x))"

text \<open>
  The validation loop of \<^verbatim>\<open>createOrder\<close> over the populated cart lines, with its two
  accumulators \<open>orderItems\<close> and \<open>subtotal\<close>. A line whose product document is missing is
  populated with \<^verbatim>\<open>null\<close>.
\<close>

fun createOrder_loop ::
  "(string \<rightharpoonup> product) \<Rightarrow> cart_item list \<Rightarrow> order_item list \<Rightarrow> rat
     \<Rightarrow> error + (order_item list \<times> rat)" where
  "createOrder_loop ps [] orderItems subtotal = Inr (orderItems, subtotal)"
| "createOrder_loop ps (cartItem # rest) orderItems subtotal =
     (case ps (ci_productId cartItem) of
        None \<Rightarrow> Inl (BadRequestException (ProductNoLongerAvailable ''unknown''))
      | Some product \<Rightarrow>
          if \<not> p_isActive product then
            Inl (BadRequestException (ProductNoLongerAvailable
                   (if p_name product = [] then ''unknown'' else p_name product)))
          else if p_stock product < ci_quantity cartItem then
            Inl (BadRequestException (InsufficientStock (p_name product) (p_stock product)))
          else
            let itemTotal = of_int (ci_quantity cartItem) * ci_price cartItem
            in createOrder_loop ps rest
                 (orderItems @
                    [\<lparr> oi_productId = ci_productId cartItem,
                       oi_vendorId = p_vendorId product,
                       oi_name = p_name product,
                       oi_image = item_image product,
                       oi_quantity = ci_quantity cartItem,
                       oi_price = ci_price cartItem,
                       oi_discount = or_zero (p_discount product),
                       oi_total = itemTotal \<rparr>])
                 (subtotal + itemTotal))"

text \<open>
  The part of \<^verbatim>\<open>createOrder\<close> that only reads (up to and including the call of
  \<^verbatim>\<open>generateOrderNumber\<close>): it yields the document handed to \<^verbatim>\<open>orderModel.create\<close>.
\<close>

definition createOrder_prepare :: "date \<Rightarrow> store \<Rightarrow> string \<Rightarrow> CreateOrderDto \<Rightarrow> error + order" where
  "createOrder_prepare now s userId createOrderDto =
     (case carts s userId of
        None \<Rightarrow> Inl (BadRequestException CartIsEmpty)
      | Some cartItems \<Rightarrow>
          if length cartItems = 0 then Inl (BadRequestException CartIsEmpty)
          else
            (case createOrder_loop (products s) cartItems [] 0 of
               Inl e \<Rightarrow> Inl e
             | Inr (orderItems, subtotal) \<Rightarrow>
                 let taxRate = 8 / 100;
                     tax = subtotal * taxRate;
                     shippingCost = or_zero (dto_shippingCost createOrderDto);
                     discount = or_zero (dto_discount createOrderDto);
                     total = subtotal + tax + shippingCost - discount;
                     orderNumber = generateOrderNumber now s
                 in Inr \<lparr> o_orderNumber = orderNumber,
                          o_customerId = userId,
                          o_items = orderItems,
                          o_subtotal = subtotal,
                          o_tax = tax,
                          o_taxRate = taxRate,
                          o_shippingCost = shippingCost,
                          o_discount = discount,
                          o_total = total,
                          o_currency = ''CFA'',
                          o_status = PENDING,
                          o_paymentStatus = PaymentStatus_PENDING,
                          o_paymentMethod = dto_paymentMethod createOrderDto,
                          o_shippingAddress = dto_shippingAddress createOrderDto,
                          o_billingAddress =
                            (case dto_billingAddress createOrderDto of
                               None \<Rightarrow> dto_shippingAddress createOrderDto
                             | Some b \<Rightarrow> b),
                          o_notes = dto_notes createOrderDto,
                          o_statusHistory =
                            [\<lparr> h_status = PENDING, h_timestamp = getTime now,
                               h_note = ''Order placed'' \<rparr>],
                          o_deliveredAt = None \<rparr>))"

text \<open>
  \<^verbatim>\<open>productModel.updateOne({ _id }, { $inc: { stock: ds, totalSales: dt } })\<close>: nothing
  happens when no product has that identifier.
\<close>

definition inc_product :: "string \<Rightarrow> int \<Rightarrow> int \<Rightarrow> (string \<rightharpoonup> product) \<Rightarrow> (string \<rightharpoonup> product)" where
  "inc_product productId ds dt ps =
     (case ps productId of
        None \<Rightarrow> ps
      | Some p \<Rightarrow> ps(productId \<mapsto> p\<lparr> p_stock := p_stock p + ds, p_totalSales := p_totalSales p + dt \<rparr>))"

text \<open>The loop "Reduce stock for all products".\<close>

fun reduce_stock :: "order_item list \<Rightarrow> (string \<rightharpoonup> product) \<Rightarrow> (string \<rightharpoonup> product)" where
  "reduce_stock [] ps = ps"
| "reduce_stock (item # rest) ps =
     reduce_stock rest (inc_product (oi_productId item) (- oi_quantity item) (oi_quantity item) ps)"

text \<open>\<^verbatim>\<open>cartModel.updateOne({ userId }, { items: [] })\<close>.\<close>

definition clear_cart :: "string \<Rightarrow> (string \<rightharpoonup> cart_item list) \<Rightarrow> (string \<rightharpoonup> cart_item list)" where
  "clear_cart userId cs = (case cs userId of None \<Rightarrow> cs | Some _ \<Rightarrow> cs(userId \<mapsto> []))"

text \<open>
  The part of \<^verbatim>\<open>createOrder\<close> that writes: insert the order, reduce the stock of every
  line, clear the cart. It returns the new order's identifier with the store.
\<close>

definition createOrder_commit :: "store \<Rightarrow> string \<Rightarrow> order \<Rightarrow> nat \<times> store" where
  "createOrder_commit s userId doc =
     (let s1 = s\<lparr> orders := orders s @ [doc] \<rparr>;
          s2 = s1\<lparr> products := reduce_stock (o_items doc) (products s1) \<rparr>;
          s3 = s2\<lparr> carts := clear_cart userId (carts s2) \<rparr>
      in (length (orders s), s3))"

text \<open>
  \<^verbatim>\<open>createOrder\<close>, run without interference. The result is the stored order, which
  \<^verbatim>\<open>findById(order._id)\<close> reads back (the \<^verbatim>\<open>populate\<close> calls only decorate the returned
  copy), paired with its identifier.
\<close>

definition createOrder ::
  "date \<Rightarrow> store \<Rightarrow> string \<Rightarrow> CreateOrderDto \<Rightarrow> (error + (nat \<times> order)) \<times> store" where
  "createOrder now s userId createOrderDto =
     (case createOrder_prepare now s userId createOrderDto of
        Inl e \<Rightarrow> (Inl e, s)
      | Inr doc \<Rightarrow>
          (case createOrder_commit s userId doc of
             (orderId, s') \<Rightarrow> (Inr (orderId, orders s' ! orderId), s')))"

text \<open>
  Two calls of \<^verbatim>\<open>createOrder\<close> in flight at once. Every \<^verbatim>\<open>await\<close> lets the other call run;
  in this schedule both calls have read the cart and the order count before either reaches
  \<^verbatim>\<open>orderModel.create\<close>, and then each performs its writes. \<open>None\<close> when a call fails
  validation. The order schema is not among the sources; \<^verbatim>\<open>create\<close> is taken to accept
  every document, as the service does nothing else to keep order numbers apart.
\<close>

definition createOrder_concurrently ::
  "date \<Rightarrow> store \<Rightarrow> string \<Rightarrow> CreateOrderDto \<Rightarrow> string \<Rightarrow> CreateOrderDto \<Rightarrow> store option" where
  "createOrder_concurrently now s userA dtoA userB dtoB =
     (case createOrder_prepare now s userA dtoA of
        Inl _ \<Rightarrow> None
      | Inr docA \<Rightarrow>
          (case createOrder_prepare now s userB dtoB of
             Inl _ \<Rightarrow> None
           | Inr docB \<Rightarrow>
               Some (snd (createOrder_commit (snd (createOrder_commit s userA docA)) userB docB))))"

section \<open>Reading and advancing an order\<close>

text \<open>\<^verbatim>\<open>orderModel.findById\<close>.\<close>

definition findById :: "store \<Rightarrow> nat \<Rightarrow> order option" where
  "findById s orderId = (if orderId < length (orders s) then Some (orders s ! orderId) else None)"

text \<open>\<^verbatim>\<open>order.save()\<close> of the document read by \<open>findById\<close>.\<close>

definition save :: "store \<Rightarrow> nat \<Rightarrow> order \<Rightarrow> store" where
  "save s orderId order = s\<lparr> orders := (orders s)[orderId := order] \<rparr>"

text \<open>
  The test \<^verbatim>\<open>order.items.some(item => item.vendorId._id.toString() === userId)\<close> of
  \<^verbatim>\<open>getOrder\<close>, on the populated order: a line whose vendor document is missing holds
  \<^verbatim>\<open>null\<close>, and reading \<^verbatim>\<open>_id\<close> of it throws. \<^verbatim>\<open>some\<close> stops at the first match.
\<close>

fun some_populated_vendor :: "(string \<rightharpoonup> string) \<Rightarrow> string \<Rightarrow> order_item list \<Rightarrow> error + bool" where
  "some_populated_vendor vs userId [] = Inr False"
| "some_populated_vendor vs userId (item # rest) =
     (case vs (oi_vendorId item) of
        None \<Rightarrow> Inl TypeError
      | Some _ \<Rightarrow>
          if oi_vendorId item = userId then Inr True
          else some_populated_vendor vs userId rest)"

text \<open>
  \<^verbatim>\<open>getOrder(orderId, userId, 'vendor')\<close>, the call \<^verbatim>\<open>updateOrderStatus\<close> ends with; the
  branch for the role \<^verbatim>\<open>'customer'\<close> is not taken.
\<close>

definition getOrder_vendor :: "store \<Rightarrow> nat \<Rightarrow> string \<Rightarrow> error + order" where
  "getOrder_vendor s orderId userId =
     (case findById s orderId of
        None \<Rightarrow> Inl NotFoundException
      | Some order \<Rightarrow>
          (case some_populated_vendor (vendors s) userId (o_items order) of
             Inl e \<Rightarrow> Inl e
           | Inr hasVendorProduct \<Rightarrow>
               if \<not> hasVendorProduct then Inl ForbiddenException else Inr order))"

text \<open>\<^verbatim>\<open>note || `Status updated to ${status}`\<close> and \<^verbatim>\<open>reason || 'Cancelled by customer'\<close>.\<close>

definition or_default :: "string option \<Rightarrow> string \<Rightarrow> string" where
  "or_default x d = (case x of None \<Rightarrow> d | Some v \<Rightarrow> if v = [] then d else v)"

definition updateOrderStatus ::
  "date \<Rightarrow> store \<Rightarrow> nat \<Rightarrow> string \<Rightarrow> OrderStatus \<Rightarrow> string option \<Rightarrow> (error + order) \<times> store" where
  "updateOrderStatus now s orderId vendorId status note =
     (case findById s orderId of
        None \<Rightarrow> (Inl NotFoundException, s)
      | Some order \<Rightarrow>
          let hasVendorProduct = list_ex (\<lambda>item. oi_vendorId item = vendorId) (o_items order)
          in if \<not> hasVendorProduct then (Inl ForbiddenException, s)
             else
               let order1 = order\<lparr> o_status := status,
                                  o_statusHistory := o_statusHistory order @
                                    [\<lparr> h_status = status, h_timestamp = getTime now,
                                       h_note = or_default note
                                         (''Status updated to '' @ OrderStatus_value status) \<rparr>] \<rparr>;
                   order2 = (if status = DELIVERED
                             then order1\<lparr> o_deliveredAt := Some (getTime now) \<rparr>
                             else order1);
                   s' = save s orderId order2
               in (getOrder_vendor s' orderId vendorId, s'))"

section \<open>Cancelling an order\<close>

text \<open>The loop "Restore stock".\<close>

fun restore_stock :: "order_item list \<Rightarrow> (string \<rightharpoonup> product) \<Rightarrow> (string \<rightharpoonup> product)" where
  "restore_stock [] ps = ps"
| "restore_stock (item # rest) ps =
     restore_stock rest (inc_product (oi_productId item) (oi_quantity item) (- oi_quantity item) ps)"

definition cancelOrder ::
  "date \<Rightarrow> store \<Rightarrow> nat \<Rightarrow> string \<Rightarrow> string option \<Rightarrow> (error + order) \<times> store" where
  "cancelOrder now s orderId userId reason =
     (case findById s orderId of
        None \<Rightarrow> (Inl NotFoundException, s)
      | Some order \<Rightarrow>
          if o_customerId order \<noteq> userId then (Inl ForbiddenException, s)
          else if o_status order \<noteq> PENDING \<and> o_status order \<noteq> CONFIRMED then
            (Inl (BadRequestException CannotBeCancelled), s)
          else
            let s1 = s\<lparr> products := restore_stock (o_items order) (products s) \<rparr>;
                order' = order\<lparr> o_status := CANCELLED,
                                  o_statusHistory := o_statusHistory order @
                                    [\<lparr> h_status = CANCELLED, h_timestamp = getTime now,
                                       h_note = or_default reason ''Cancelled by customer'' \<rparr>] \<rparr>
            in (Inr order', save s1 orderId order'))"

section \<open>Vendor statistics\<close>

record vendor_stats =
  stats_totalOrders :: nat
  stats_totalRevenue :: rat
  stats_pending :: nat
  stats_processing :: nat
  stats_shipped :: nat
  stats_delivered :: nat

text \<open>\<^verbatim>\<open>find({ 'items.vendorId': vendorId })\<close>: the orders with a line of that vendor.\<close>

definition find_vendor_orders :: "store \<Rightarrow> string \<Rightarrow> order list" where
  "find_vendor_orders s vendorId =
     filter (\<lambda>order. list_ex (\<lambda>item. oi_vendorId item = vendorId) (o_items order)) (orders s)"

text \<open>
  The loop of \<^verbatim>\<open>getVendorOrderStats\<close>; the accumulator holds \<open>totalRevenue\<close>, \<open>pending\<close>,
  \<open>processing\<close>, \<open>shipped\<close> and \<open>delivered\<close>.
\<close>

fun getVendorOrderStats_loop ::
  "string \<Rightarrow> order list \<Rightarrow> rat \<times> nat \<times> nat \<times> nat \<times> nat \<Rightarrow> rat \<times> nat \<times> nat \<times> nat \<times> nat" where
  "getVendorOrderStats_loop vendorId [] acc = acc"
| "getVendorOrderStats_loop vendorId (order # rest) (totalRevenue, pending, processing, shipped, delivered) =
     (let vendorItems = filter (\<lambda>item. oi_vendorId item = vendorId) (o_items order);
          vendorRevenue = foldl (\<lambda>sum item. sum + oi_total item) 0 vendorItems;
          totalRevenue' = totalRevenue + vendorRevenue
      in getVendorOrderStats_loop vendorId rest
           (if o_status order = PENDING then (totalRevenue', pending + 1, processing, shipped, delivered)
            else if o_status order = PROCESSING then (totalRevenue', pending, processing + 1, shipped, delivered)
            else if o_status order = SHIPPED then (totalRevenue', pending, processing, shipped + 1, delivered)
            else if o_status order = DELIVERED then (totalRevenue', pending, processing, shipped, delivered + 1)
            else (totalRevenue', pending, processing, shipped, delivered)))"

definition getVendorOrderStats :: "store \<Rightarrow> string \<Rightarrow> vendor_stats" where
  "getVendorOrderStats s vendorId =
     (let vendorOrders = find_vendor_orders s vendorId
      in case getVendorOrderStats_loop vendorId vendorOrders (0, 0, 0, 0, 0) of
           (totalRevenue, pending, processing, shipped, delivered) \<Rightarrow>
             \<lparr> stats_totalOrders = length vendorOrders,
               stats_totalRevenue = totalRevenue,
               stats_pending = pending,
               stats_processing = processing,
               stats_shipped = shipped,
               stats_delivered = delivered \<rparr>)"

section \<open>The cart service: reading the cart and merging a guest cart\<close>










section \<open>The mutating routes of the orders controller\<close>

text \<open>
  \<^verbatim>\<open>POST /orders\<close>, \<^verbatim>\<open>PATCH /orders/:id/status\<close> and \<^verbatim>\<open>PATCH /orders/:id/cancel\<close>, each with
  the authenticated user and the request's parameters.
\<close>

datatype request =
    PostOrder string CreateOrderDto
  | PatchStatus nat string OrderStatus "string option"
  | PatchCancel nat string "string option"

fun handle :: "date \<Rightarrow> store \<Rightarrow> request \<Rightarrow> store" where
  "handle now s (PostOrder userId createOrderDto) = snd (createOrder now s userId createOrderDto)"
| "handle now s (PatchStatus orderId userId status note) =
     snd (updateOrderStatus now s orderId userId status note)"
| "handle now s (PatchCancel orderId userId reason) = snd (cancelOrder now s orderId userId reason)"

text \<open>Requests served one after the other, each at its own time.\<close>

fun serve :: "store \<Rightarrow> (date \<times> request) list \<Rightarrow> store" where
  "serve s [] = s"
| "serve s ((now, r) # rest) = serve (handle now s r) rest"

section \<open>Notions used to state the properties\<close>

text \<open>A cart line that the validation of \<^verbatim>\<open>createOrder\<close> has to reject.\<close>

definition line_invalid :: "(string \<rightharpoonup> product) \<Rightarrow> cart_item \<Rightarrow> bool" where
  "line_invalid ps cartItem =
     (case ps (ci_productId cartItem) of
        None \<Rightarrow> True
      | Some product \<Rightarrow> \<not> p_isActive product \<or> p_stock product < ci_quantity cartItem)"

text \<open>The quantity of one product in an order, summed over the order's lines.\<close>

definition ordered_quantity :: "order_item list \<Rightarrow> string \<Rightarrow> int" where
  "ordered_quantity orderItems productId =
     sum_list (map oi_quantity (filter (\<lambda>item. oi_productId item = productId) orderItems))"

text \<open>The sum of the line totals of one vendor in an order.\<close>

definition vendor_revenue :: "string \<Rightarrow> order \<Rightarrow> rat" where
  "vendor_revenue vendorId order =
     sum_list (map oi_total (filter (\<lambda>item. oi_vendorId item = vendorId) (o_items order)))"

text \<open>The last entry of the status history carries the order's status.\<close>

definition history_ok :: "order \<Rightarrow> bool" where
  "history_ok order =
     (o_statusHistory order \<noteq> [] \<and> h_status (last (o_statusHistory order)) = o_status order)"

text \<open>
  The transition table of the specification: the chain from \<open>PENDING\<close> to \<open>DELIVERED\<close>, and
  \<open>CANCELLED\<close> from \<open>PENDING\<close> or \<open>CONFIRMED\<close>.
\<close>

fun spec_legal_transition :: "OrderStatus \<Rightarrow> OrderStatus \<Rightarrow> bool" where
  "spec_legal_transition PENDING CONFIRMED = True"
| "spec_legal_transition CONFIRMED PROCESSING = True"
| "spec_legal_transition PROCESSING SHIPPED = True"
| "spec_legal_transition SHIPPED DELIVERED = True"
| "spec_legal_transition PENDING CANCELLED = True"
| "spec_legal_transition CONFIRMED CANCELLED = True"
| "spec_legal_transition _ _ = False"




text \<open>
  The bound within which the stock arithmetic is exact: for every line of the order, the
  stock and the sales counter of its product, increased by the quantities of all the lines,
  stay within \<open>2\<^sup>5\<^sup>3\<close> in magnitude, so that every sum the two stock loops form is an integer
  that a JavaScript number holds exactly.
\<close>

definition exact_numbers :: "(string \<rightharpoonup> product) \<Rightarrow> order_item list \<Rightarrow> bool" where
  "exact_numbers ps orderItems =
     list_all
       (\<lambda>item. case ps (oi_productId item) of
                 None \<Rightarrow> True
               | Some product \<Rightarrow>
                   \<bar>p_stock product\<bar> + sum_list (map (\<lambda>i. \<bar>oi_quantity i\<bar>) orderItems) \<le> 2 ^ 53
                 \<and> \<bar>p_totalSales product\<bar> + sum_list (map (\<lambda>i. \<bar>oi_quantity i\<bar>) orderItems) \<le> 2 ^ 53)
       orderItems"

section \<open>Example data\<close>

definition addr0 :: ShippingAddressDto where
  "addr0 = \<lparr> fullName = ''Alice'', street = ''1 Rue'', city = ''Douala'', state = ''LT'',
             zipCode = ''0000'', country = ''CM'', phone = ''1'' \<rparr>"

definition dto0 :: CreateOrderDto where
  "dto0 = \<lparr> dto_paymentMethod = ''cash'', dto_shippingAddress = addr0, dto_billingAddress = None,
            dto_shippingCost = Some 10, dto_discount = None, dto_notes = None \<rparr>"

definition now0 :: date where
  "now0 = \<lparr> getFullYear = 2026, getMonth = 10, getDate = 2, getTime = 1000 \<rparr>"

definition prodA :: product where
  "prodA = \<lparr> p_vendorId = ''X'', p_name = ''A'', p_mainImage = None, p_images = [],
             p_price = 100, p_discount = None, p_stock = 10, p_totalSales = 0, p_isActive = True \<rparr>"

definition prodB :: product where
  "prodB = \<lparr> p_vendorId = ''Y'', p_name = ''B'', p_mainImage = None, p_images = [],
             p_price = 50, p_discount = None, p_stock = 5, p_totalSales = 0, p_isActive = True \<rparr>"

text \<open>
  Alice's cart holds two of A at 100 and one of B at 50; Bob's holds three of A and one of
  B; Dave's holds one of each; Carol's asks for eleven of A, of which ten are in stock.
  A is sold by vendor X and B by vendor Y.
\<close>

definition store0 :: store where
  "store0 =
     \<lparr> products = [''A'' \<mapsto> prodA, ''B'' \<mapsto> prodB],
       carts =
         [''alice'' \<mapsto>
            [\<lparr> ci_productId = ''A'', ci_quantity = 2, ci_price = 100, ci_addedAt = 0 \<rparr>,
             \<lparr> ci_productId = ''B'', ci_quantity = 1, ci_price = 50, ci_addedAt = 0 \<rparr>],
          ''bob'' \<mapsto>
            [\<lparr> ci_productId = ''A'', ci_quantity = 3, ci_price = 100, ci_addedAt = 0 \<rparr>,
             \<lparr> ci_productId = ''B'', ci_quantity = 1, ci_price = 50, ci_addedAt = 0 \<rparr>],
          ''dave'' \<mapsto>
            [\<lparr> ci_productId = ''A'', ci_quantity = 1, ci_price = 100, ci_addedAt = 0 \<rparr>,
             \<lparr> ci_productId = ''B'', ci_quantity = 1, ci_price = 50, ci_addedAt = 0 \<rparr>],
          ''carol'' \<mapsto>
            [\<lparr> ci_productId = ''B'', ci_quantity = 1, ci_price = 50, ci_addedAt = 0 \<rparr>,
             \<lparr> ci_productId = ''A'', ci_quantity = 11, ci_price = 100, ci_addedAt = 0 \<rparr>]],
       orders = [],
       vendors = [''X'' \<mapsto> ''Shop X'', ''Y'' \<mapsto> ''Shop Y''] \<rparr>"

text \<open>The store after Bob's order, and after Bob has cancelled it.\<close>

definition store1 :: store where
  "store1 = snd (createOrder now0 store0 ''bob'' dto0)"

definition store2 :: store where
  "store2 = snd (cancelOrder now0 store1 0 ''bob'' None)"

text \<open>
  Bob's pending order set to \<open>CANCELLED\<close> by vendor X through \<^verbatim>\<open>updateOrderStatus\<close>; and Bob's
  order, cancelled by Bob, set back to \<open>PENDING\<close> by vendor X and cancelled by Bob again.
\<close>

definition store6 :: store where
  "store6 = snd (updateOrderStatus now0 store1 0 ''X'' CANCELLED None)"

definition store7 :: store where
  "store7 = snd (cancelOrder now0 (snd (updateOrderStatus now0 store2 0 ''X'' PENDING None)) 0 ''bob'' None)"

text \<open>The store after Dave's order, and after Dave has cancelled it.\<close>

definition store3 :: store where
  "store3 = snd (createOrder now0 store0 ''dave'' dto0)"

definition store4 :: store where
  "store4 = snd (cancelOrder now0 store3 0 ''dave'' None)"









section \<open>Auxiliary facts\<close>

lemmas example_defs = addr0_def dto0_def now0_def prodA_def prodB_def store0_def

lemmas order_defs =
  findById_def save_def or_default_def updateOrderStatus_def cancelOrder_def getOrder_vendor_def

lemmas createOrder_defs =
  createOrder_def createOrder_prepare_def createOrder_commit_def generateOrderNumber_def
  padStart_def or_zero_def item_image_def inc_product_def clear_cart_def

lemma createOrder_loop_invalid:
  "list_ex (line_invalid ps) cartItems \<Longrightarrow> isl (createOrder_loop ps cartItems orderItems subtotal)"
  by (induction cartItems arbitrary: orderItems subtotal)
     (auto simp: line_invalid_def Let_def split: option.splits)

lemma createOrder_loop_error:
  "createOrder_loop ps cartItems orderItems subtotal = Inl e \<Longrightarrow> \<exists>b. e = BadRequestException b"
  by (induction cartItems arbitrary: orderItems subtotal)
     (auto simp: Let_def split: option.splits if_splits)

section \<open>Validation failures of \<^verbatim>\<open>createOrder\<close> change nothing\<close>

text \<open>
  Claim C1. Whenever \<^verbatim>\<open>createOrder\<close> is called with no cart, an empty cart, or a cart with a
  line whose product is missing, inactive or short of stock, it fails with a
  \<^verbatim>\<open>BadRequestException\<close> (\<open>Cart is empty\<close> in the first two cases); and whenever it fails,
  the store it leaves is the store it found: same carts, same products (so same stock),
  same orders (so none persisted).
\<close>

theorem createOrder_validation_aborts:
  assumes "createOrder now s userId dto = (r, s')"
  shows "((carts s userId = None \<or> carts s userId = Some [] \<or>
           (\<exists>cartItems. carts s userId = Some cartItems \<and>
                         list_ex (line_invalid (products s)) cartItems))
          \<longrightarrow> (\<exists>b. r = Inl (BadRequestException b)))
       \<and> (carts s userId = None \<or> carts s userId = Some []
          \<longrightarrow> r = Inl (BadRequestException CartIsEmpty))
       \<and> (isl r \<longrightarrow> s' = s)"
proof -
  have fail: "isl r \<longrightarrow> s' = s"
    using assms by (auto simp: createOrder_def split: sum.splits prod.splits)
  have empty: "carts s userId = None \<or> carts s userId = Some []
                 \<longrightarrow> r = Inl (BadRequestException CartIsEmpty)"
    using assms by (auto simp: createOrder_def createOrder_prepare_def)
  have "\<exists>b. r = Inl (BadRequestException b)"
    if "carts s userId = Some cartItems" "list_ex (line_invalid (products s)) cartItems"
    for cartItems
  proof -
    from that(2) have ne: "cartItems \<noteq> []" by auto
    from createOrder_loop_invalid [OF that(2), of "[]" 0]
    obtain e where e: "createOrder_loop (products s) cartItems [] 0 = Inl e"
      by (cases "createOrder_loop (products s) cartItems [] 0") auto
    then obtain b where "e = BadRequestException b"
      using createOrder_loop_error by blast
    with e that(1) ne assms show ?thesis
      by (auto simp: createOrder_def createOrder_prepare_def)
  qed
  with fail empty show ?thesis by blast
qed

text \<open>
  Carol's second line asks for eleven of A with ten in stock: the call fails and the store,
  including the stock of B from her first line, is as before.
\<close>

theorem createOrder_validation_aborts_witness:
  "createOrder now0 store0 ''carol'' dto0
     = (Inl (BadRequestException (InsufficientStock ''A'' 10)), store0)
   \<and> (\<exists>cartItems. carts store0 ''carol'' = Some cartItems \<and>
                    list_ex (line_invalid (products store0)) cartItems)
   \<and> isl (Inl (BadRequestException (InsufficientStock ''A'' 10)) :: error + nat \<times> order)"
proof -
  have run: "createOrder now0 store0 ''carol'' dto0
               = (Inl (BadRequestException (InsufficientStock ''A'' 10)), store0)"
    by (simp add: example_defs createOrder_defs)
  have bad: "\<exists>cartItems. carts store0 ''carol'' = Some cartItems \<and>
                          list_ex (line_invalid (products store0)) cartItems"
    by (simp add: example_defs line_invalid_def)
  from createOrder_validation_aborts [OF run] bad run show ?thesis
    by simp
qed

section \<open>The totals of a new order\<close>

lemma createOrder_loop_lines:
  "createOrder_loop ps cartItems orderItems subtotal = Inr (orderItems', subtotal') \<Longrightarrow>
     map (\<lambda>i. (oi_productId i, oi_quantity i, oi_price i)) orderItems'
       = map (\<lambda>i. (oi_productId i, oi_quantity i, oi_price i)) orderItems
         @ map (\<lambda>c. (ci_productId c, ci_quantity c, ci_price c)) cartItems"
  by (induction cartItems arbitrary: orderItems subtotal)
     (auto simp: Let_def split: option.splits if_splits)

lemma createOrder_loop_totals:
  "createOrder_loop ps cartItems orderItems subtotal = Inr (orderItems', subtotal') \<Longrightarrow>
     list_all (\<lambda>i. oi_total i = of_int (oi_quantity i) * oi_price i) orderItems \<Longrightarrow>
     list_all (\<lambda>i. oi_total i = of_int (oi_quantity i) * oi_price i) orderItems'"
  by (induction cartItems arbitrary: orderItems subtotal)
     (auto simp: Let_def split: option.splits if_splits)

lemma createOrder_loop_subtotal:
  "createOrder_loop ps cartItems orderItems subtotal = Inr (orderItems', subtotal') \<Longrightarrow>
     subtotal' - sum_list (map oi_total orderItems') = subtotal - sum_list (map oi_total orderItems)"
  by (induction cartItems arbitrary: orderItems subtotal)
     (auto simp: Let_def split: option.splits if_splits)

lemma createOrder_success:
  assumes "createOrder now s userId dto = (Inr (orderId, order), s')"
  shows "createOrder_prepare now s userId dto = Inr order
       \<and> orderId = length (orders s)
       \<and> s' = snd (createOrder_commit s userId order)"
  using assms
  by (auto simp: createOrder_def createOrder_commit_def Let_def split: sum.splits prod.splits)

text \<open>
  Claim C4. For the order that a successful \<^verbatim>\<open>createOrder\<close> stores and returns: the lines
  carry the products, quantities and prices of the cart lines, in order; every line total is
  quantity times price; the subtotal is the sum of the line totals; the tax rate is 0.08 and
  the tax is subtotal times tax rate; shipping cost and discount are the caller's (0 when
  absent); and the total is subtotal + tax + shipping cost - discount. Numbers are exact
  rationals here.
\<close>

theorem createOrder_totals:
  assumes "createOrder now s userId dto = (Inr (orderId, order), s')"
      and "carts s userId = Some cartItems"
  shows "map (\<lambda>i. (oi_productId i, oi_quantity i, oi_price i)) (o_items order)
           = map (\<lambda>c. (ci_productId c, ci_quantity c, ci_price c)) cartItems
       \<and> list_all (\<lambda>i. oi_total i = of_int (oi_quantity i) * oi_price i) (o_items order)
       \<and> o_subtotal order = sum_list (map oi_total (o_items order))
       \<and> o_taxRate order = 8 / 100
       \<and> o_tax order = o_subtotal order * o_taxRate order
       \<and> o_shippingCost order = or_zero (dto_shippingCost dto)
       \<and> o_discount order = or_zero (dto_discount dto)
       \<and> o_total order = o_subtotal order + o_tax order + o_shippingCost order - o_discount order
       \<and> findById s' orderId = Some order"
proof -
  from createOrder_success [OF assms(1)]
  have prep: "createOrder_prepare now s userId dto = Inr order"
    and oid: "orderId = length (orders s)"
    and s': "s' = snd (createOrder_commit s userId order)" by auto
  from prep assms(2) obtain orderItems subtotal where
    loop: "createOrder_loop (products s) cartItems [] 0 = Inr (orderItems, subtotal)"
    and items: "o_items order = orderItems" and sub: "o_subtotal order = subtotal"
    by (auto simp: createOrder_prepare_def Let_def split: if_splits sum.splits)
  from prep assms(2) have sums:
    "o_taxRate order = 8 / 100 \<and> o_tax order = o_subtotal order * o_taxRate order
     \<and> o_shippingCost order = or_zero (dto_shippingCost dto)
     \<and> o_discount order = or_zero (dto_discount dto)
     \<and> o_total order = o_subtotal order + o_tax order + o_shippingCost order - o_discount order"
    by (auto simp: createOrder_prepare_def Let_def split: if_splits sum.splits)
  have stored: "findById s' orderId = Some order"
    by (simp add: s' oid findById_def createOrder_commit_def Let_def)
  have lines: "map (\<lambda>i. (oi_productId i, oi_quantity i, oi_price i)) (o_items order)
                 = map (\<lambda>c. (ci_productId c, ci_quantity c, ci_price c)) cartItems"
    using createOrder_loop_lines [OF loop] items by simp
  have totals: "list_all (\<lambda>i. oi_total i = of_int (oi_quantity i) * oi_price i) (o_items order)"
    using createOrder_loop_totals [OF loop] items by simp
  have subtotal: "o_subtotal order = sum_list (map oi_total (o_items order))"
    using createOrder_loop_subtotal [OF loop] items sub by simp
  from lines totals subtotal sums stored show ?thesis by blast
qed

text \<open>
  Alice's cart, two of A at 100 and one of B at 50, with shipping cost 10: subtotal 250,
  tax 20, total 280.
\<close>

theorem createOrder_totals_witness:
  "createOrder now0 store0 ''alice'' dto0
     = (Inr (0, orders (snd (createOrder now0 store0 ''alice'' dto0)) ! 0),
        snd (createOrder now0 store0 ''alice'' dto0))
   \<and> carts store0 ''alice''
       = Some [\<lparr> ci_productId = ''A'', ci_quantity = 2, ci_price = 100, ci_addedAt = 0 \<rparr>,
               \<lparr> ci_productId = ''B'', ci_quantity = 1, ci_price = 50, ci_addedAt = 0 \<rparr>]
   \<and> dto_shippingCost dto0 = Some 10
   \<and> map oi_total (o_items (orders (snd (createOrder now0 store0 ''alice'' dto0)) ! 0)) = [200, 50]
   \<and> o_subtotal (orders (snd (createOrder now0 store0 ''alice'' dto0)) ! 0) = 250
   \<and> o_tax (orders (snd (createOrder now0 store0 ''alice'' dto0)) ! 0) = 20
   \<and> o_total (orders (snd (createOrder now0 store0 ''alice'' dto0)) ! 0) = 280"
proof -
  let ?order = "orders (snd (createOrder now0 store0 ''alice'' dto0)) ! 0"
  have run: "createOrder now0 store0 ''alice'' dto0
               = (Inr (0, ?order), snd (createOrder now0 store0 ''alice'' dto0))"
    by (simp add: example_defs createOrder_defs)
  have cart: "carts store0 ''alice''
       = Some [\<lparr> ci_productId = ''A'', ci_quantity = 2, ci_price = 100, ci_addedAt = 0 \<rparr>,
               \<lparr> ci_productId = ''B'', ci_quantity = 1, ci_price = 50, ci_addedAt = 0 \<rparr>]"
    by (simp add: example_defs)
  have lines: "map oi_total (o_items ?order) = [200, 50]"
    by (simp add: example_defs createOrder_defs)
  have ship: "dto_shippingCost dto0 = Some 10" by (simp add: dto0_def)
  have disc: "dto_discount dto0 = None" by (simp add: dto0_def)
  from createOrder_totals [OF run cart] lines ship disc
  have "o_subtotal ?order = 250 \<and> o_tax ?order = 20 \<and> o_total ?order = 280"
    by (simp add: or_zero_def)
  with run cart ship lines show ?thesis by blast
qed

section \<open>Cancelling undoes the stock changes of the commit\<close>

lemma ordered_quantity_Nil: "ordered_quantity [] productId = 0"
  by (simp add: ordered_quantity_def)

lemma ordered_quantity_Cons:
  "ordered_quantity (item # rest) productId =
     (if oi_productId item = productId then oi_quantity item else 0) + ordered_quantity rest productId"
  by (simp add: ordered_quantity_def)

lemma reduce_stock_apply:
  "reduce_stock orderItems ps productId =
     map_option (\<lambda>p. p\<lparr> p_stock := p_stock p - ordered_quantity orderItems productId,
                         p_totalSales := p_totalSales p + ordered_quantity orderItems productId \<rparr>)
       (ps productId)"
proof (induction orderItems arbitrary: ps)
  case Nil
  show ?case by (cases "ps productId") (simp_all add: ordered_quantity_Nil)
next
  case (Cons item rest)
  show ?case
    by (cases "ps (oi_productId item)"; cases "ps productId")
       (auto simp: Cons.IH inc_product_def ordered_quantity_Cons)
qed

lemma restore_stock_apply:
  "restore_stock orderItems ps productId =
     map_option (\<lambda>p. p\<lparr> p_stock := p_stock p + ordered_quantity orderItems productId,
                         p_totalSales := p_totalSales p - ordered_quantity orderItems productId \<rparr>)
       (ps productId)"
proof (induction orderItems arbitrary: ps)
  case Nil
  show ?case by (cases "ps productId") (simp_all add: ordered_quantity_Nil)
next
  case (Cons item rest)
  show ?case
    by (cases "ps (oi_productId item)"; cases "ps productId")
       (auto simp: Cons.IH inc_product_def ordered_quantity_Cons)
qed

lemma restore_reduce_stock: "restore_stock orderItems (reduce_stock orderItems ps) = ps"
proof
  fix productId
  show "restore_stock orderItems (reduce_stock orderItems ps) productId = ps productId"
    by (cases "ps productId") (simp_all add: restore_stock_apply reduce_stock_apply)
qed

lemma createOrder_products:
  assumes "createOrder now s userId dto = (Inr (orderId, order), s')"
  shows "products s' = reduce_stock (o_items order) (products s)"
  using createOrder_success [OF assms]
  by (simp add: createOrder_commit_def Let_def)

lemma cancelOrder_products:
  assumes "cancelOrder now t orderId userId reason = (Inr cancelled, t')"
      and "findById t orderId = Some order"
  shows "products t' = restore_stock (o_items order) (products t)"
  using assms
  by (auto simp: cancelOrder_def save_def Let_def split: if_splits)

text \<open>
  Claim C3, as amended. Let \<^verbatim>\<open>createOrder\<close> commit an order, and let a call of
  \<^verbatim>\<open>cancelOrder\<close> later succeed on it in any store where the order still has its lines,
  with quantities, stock and sales counters integers within the bound of exact arithmetic.
  Then, writing \<open>q\<close> for the quantity of a product summed over the order's lines: the commit
  lowers the product's stock by exactly \<open>q\<close> and raises its sales counter by \<open>q\<close>; the call
  of \<^verbatim>\<open>cancelOrder\<close> raises the stock by exactly \<open>q\<close> and lowers the sales counter by \<open>q\<close>;
  and cancelling right after the commit gives back the product collection from before the
  commit.
\<close>

theorem cancel_restores_stock:
  assumes commit: "createOrder now s userId dto = (Inr (orderId, order), s1)"
      and later: "findById t orderId = Some order'" "o_items order' = o_items order"
      and cancel: "cancelOrder now' t orderId userId' reason = (Inr cancelled, t')"
      and exact: "exact_numbers (products s) (o_items order)"
                 "exact_numbers (products t) (o_items order)"
  shows "(\<forall>productId p. products s productId = Some p \<longrightarrow>
            (\<exists>p1. products s1 productId = Some p1
               \<and> p_stock p1 = p_stock p - ordered_quantity (o_items order) productId
               \<and> p_totalSales p1 = p_totalSales p + ordered_quantity (o_items order) productId))
       \<and> (\<forall>productId p. products t productId = Some p \<longrightarrow>
            (\<exists>p'. products t' productId = Some p'
               \<and> p_stock p' = p_stock p + ordered_quantity (o_items order) productId
               \<and> p_totalSales p' = p_totalSales p - ordered_quantity (o_items order) productId))
       \<and> (t = s1 \<longrightarrow> products t' = products s)"
proof -
  have down: "products s1 = reduce_stock (o_items order) (products s)"
    by (rule createOrder_products [OF commit])
  have up: "products t' = restore_stock (o_items order) (products t)"
    using cancelOrder_products [OF cancel later(1)] later(2) by simp
  have a: "\<forall>productId p. products s productId = Some p \<longrightarrow>
            (\<exists>p1. products s1 productId = Some p1
               \<and> p_stock p1 = p_stock p - ordered_quantity (o_items order) productId
               \<and> p_totalSales p1 = p_totalSales p + ordered_quantity (o_items order) productId)"
    by (simp add: down reduce_stock_apply)
  have b: "\<forall>productId p. products t productId = Some p \<longrightarrow>
            (\<exists>p'. products t' productId = Some p'
               \<and> p_stock p' = p_stock p + ordered_quantity (o_items order) productId
               \<and> p_totalSales p' = p_totalSales p - ordered_quantity (o_items order) productId)"
    by (simp add: up restore_stock_apply)
  have c: "t = s1 \<longrightarrow> products t' = products s"
    by (simp add: up down restore_reduce_stock)
  from a b c show ?thesis by blast
qed


text \<open>
  Bob orders three of A and one of B and cancels while the order is pending: the stock of A
  goes from 10 to 7 and back to 10, that of B from 5 to 4 and back to 5.
\<close>

theorem cancel_restores_stock_witness:
  "createOrder now0 store0 ''bob'' dto0 = (Inr (0, orders store1 ! 0), store1)
   \<and> findById store1 0 = Some (orders store1 ! 0)
   \<and> exact_numbers (products store0) (o_items (orders store1 ! 0))
   \<and> exact_numbers (products store1) (o_items (orders store1 ! 0))
   \<and> cancelOrder now0 store1 0 ''bob'' None
       = (Inr (projr (fst (cancelOrder now0 store1 0 ''bob'' None))), store2)
   \<and> map (\<lambda>i. (oi_productId i, oi_quantity i)) (o_items (orders store1 ! 0)) = [(''A'', 3), (''B'', 1)]
   \<and> map_option p_stock (products store0 ''A'') = Some 10
   \<and> map_option p_stock (products store1 ''A'') = Some 7
   \<and> map_option p_stock (products store2 ''A'') = Some 10
   \<and> map_option p_stock (products store0 ''B'') = Some 5
   \<and> map_option p_stock (products store1 ''B'') = Some 4
   \<and> map_option p_stock (products store2 ''B'') = Some 5
   \<and> products store2 = products store0"
proof -
  have commit: "createOrder now0 store0 ''bob'' dto0 = (Inr (0, orders store1 ! 0), store1)"
    by (simp add: store1_def example_defs createOrder_defs)
  have found: "findById store1 0 = Some (orders store1 ! 0)"
    by (simp add: store1_def example_defs createOrder_defs findById_def)
  have cancel: "cancelOrder now0 store1 0 ''bob'' None
       = (Inr (projr (fst (cancelOrder now0 store1 0 ''bob'' None))), store2)"
    by (simp add: store2_def store1_def example_defs createOrder_defs order_defs Let_def)
  have lines: "map (\<lambda>i. (oi_productId i, oi_quantity i)) (o_items (orders store1 ! 0))
                 = [(''A'', 3), (''B'', 1)]"
    by (simp add: store1_def example_defs createOrder_defs)
  have s0: "map_option p_stock (products store0 ''A'') = Some 10"
     "map_option p_stock (products store0 ''B'') = Some 5"
    by (simp_all add: example_defs)
  have s1: "map_option p_stock (products store1 ''A'') = Some 7"
    "map_option p_stock (products store1 ''B'') = Some 4"
    by (simp_all add: store1_def example_defs createOrder_defs)
  have s2: "map_option p_stock (products store2 ''A'') = Some 10"
    "map_option p_stock (products store2 ''B'') = Some 5"
    by (simp_all add: store2_def store1_def example_defs createOrder_defs order_defs Let_def)
  have exact: "exact_numbers (products store0) (o_items (orders store1 ! 0))"
    "exact_numbers (products store1) (o_items (orders store1 ! 0))"
    by (simp_all add: exact_numbers_def store1_def example_defs createOrder_defs)
  from cancel_restores_stock [OF commit found refl cancel exact]
  have "products store2 = products store0" by simp
  with commit found cancel lines s0 s1 s2 exact show ?thesis by blast
qed

text \<open>
  Claim C3 as stated fails for an order that becomes cancelled otherwise. Bob's order took
  the stock of A from 10 to 7. When vendor X sets it to \<open>CANCELLED\<close>, the stock stays at 7,
  and Bob's own cancellation is then refused. And when Bob cancels (stock 10), vendor X
  sets the order back to \<open>PENDING\<close> and Bob cancels again, the stock of A is 13.
\<close>

theorem cancel_restores_stock_counterexample:
  "map_option p_stock (products store0 ''A'') = Some 10
   \<and> map_option p_stock (products store1 ''A'') = Some 7
   \<and> o_status (orders store6 ! 0) = CANCELLED
   \<and> map_option p_stock (products store6 ''A'') = Some 7
   \<and> cancelOrder now0 store6 0 ''bob'' None = (Inl (BadRequestException CannotBeCancelled), store6)
   \<and> o_status (orders store2 ! 0) = CANCELLED
   \<and> map_option p_stock (products store2 ''A'') = Some 10
   \<and> o_status (orders store7 ! 0) = CANCELLED
   \<and> map_option p_stock (products store7 ''A'') = Some 13"
  by (simp add: store7_def store6_def store2_def store1_def example_defs createOrder_defs
        order_defs Let_def)

section \<open>Who may advance and who may cancel\<close>

lemma some_populated_vendor_False:
  "some_populated_vendor vs userId orderItems = Inr False \<Longrightarrow>
     \<not> list_ex (\<lambda>item. oi_vendorId item = userId) orderItems"
  by (induction orderItems) (auto split: option.splits if_splits)

lemma some_populated_vendor_True:
  "list_all (\<lambda>item. vs (oi_vendorId item) \<noteq> None) orderItems \<Longrightarrow>
   list_ex (\<lambda>item. oi_vendorId item = userId) orderItems \<Longrightarrow>
     some_populated_vendor vs userId orderItems = Inr True"
  by (induction orderItems) (auto split: option.splits if_splits)

lemma findById_save:
  "findById s orderId = Some order \<Longrightarrow> findById (save s orderId order') orderId = Some order'"
  by (auto simp: findById_def save_def split: if_splits)

lemma some_populated_vendor_error:
  "some_populated_vendor vs userId orderItems = Inl e \<Longrightarrow> e = TypeError"
  by (induction orderItems) (auto split: option.splits if_splits)

lemma getOrder_vendor_allowed:
  assumes "findById s orderId = Some order"
      and "list_ex (\<lambda>item. oi_vendorId item = userId) (o_items order)"
  shows "getOrder_vendor s orderId userId = Inr order
       \<or> getOrder_vendor s orderId userId = Inl TypeError"
proof (cases "some_populated_vendor (vendors s) userId (o_items order)")
  case (Inl e)
  with some_populated_vendor_error [OF Inl] assms(1) show ?thesis
    by (simp add: getOrder_vendor_def)
next
  case (Inr found)
  with some_populated_vendor_False [of "vendors s" userId "o_items order"] assms(2)
  have "found" by (cases found) auto
  with Inr assms(1) show ?thesis by (simp add: getOrder_vendor_def)
qed

lemma getOrder_vendor_populated:
  assumes "findById s orderId = Some order"
      and "list_ex (\<lambda>item. oi_vendorId item = userId) (o_items order)"
      and "list_all (\<lambda>item. vendors s (oi_vendorId item) \<noteq> None) (o_items order)"
  shows "getOrder_vendor s orderId userId = Inr order"
  using assms some_populated_vendor_True [OF assms(3) assms(2)]
  by (simp add: getOrder_vendor_def)

lemma updateOrderStatus_effect:
  assumes "findById s orderId = Some order"
      and "list_ex (\<lambda>item. oi_vendorId item = vendorId) (o_items order)"
  shows "\<exists>order' entry.
           updateOrderStatus now s orderId vendorId status note
             = (getOrder_vendor (save s orderId order') orderId vendorId, save s orderId order')
         \<and> o_items order' = o_items order
         \<and> o_status order' = status
         \<and> o_statusHistory order' = o_statusHistory order @ [entry]
         \<and> h_status entry = status"
proof -
  let ?entry = "\<lparr> h_status = status, h_timestamp = getTime now,
                  h_note = or_default note (''Status updated to '' @ OrderStatus_value status) \<rparr>"
  let ?order1 = "order\<lparr> o_status := status,
                         o_statusHistory := o_statusHistory order @ [?entry] \<rparr>"
  let ?order2 = "if status = DELIVERED then ?order1\<lparr> o_deliveredAt := Some (getTime now) \<rparr>
                 else ?order1"
  have "updateOrderStatus now s orderId vendorId status note
          = (getOrder_vendor (save s orderId ?order2) orderId vendorId, save s orderId ?order2)"
    using assms by (simp add: updateOrderStatus_def Let_def)
  moreover have "o_items ?order2 = o_items order" "o_status ?order2 = status"
    "o_statusHistory ?order2 = o_statusHistory order @ [?entry]" "h_status ?entry = status"
    by simp_all
  ultimately show ?thesis by blast
qed

lemma vendors_save: "vendors (save s orderId order) = vendors s"
  by (simp add: save_def)

lemma updateOrderStatus_forbidden:
  assumes "findById s orderId = Some order"
  shows "fst (updateOrderStatus now s orderId actorId status note) = Inl ForbiddenException
           \<longleftrightarrow> \<not> list_ex (\<lambda>item. oi_vendorId item = actorId) (o_items order)"
proof (cases "list_ex (\<lambda>item. oi_vendorId item = actorId) (o_items order)")
  case False
  with assms show ?thesis by (simp add: updateOrderStatus_def)
next
  case True
  from updateOrderStatus_effect [OF assms True, of now status "note"]
  obtain order' where
    run: "fst (updateOrderStatus now s orderId actorId status note)
            = getOrder_vendor (save s orderId order') orderId actorId"
    and items: "o_items order' = o_items order" by auto
  have "list_ex (\<lambda>item. oi_vendorId item = actorId) (o_items order')"
    using True items by simp
  from getOrder_vendor_allowed [OF findById_save [OF assms] this]
  have "getOrder_vendor (save s orderId order') orderId actorId \<noteq> Inl ForbiddenException"
    by auto
  with run True show ?thesis by simp
qed

text \<open>
  Claim C9. On an existing order, \<^verbatim>\<open>updateOrderStatus\<close> fails with \<^verbatim>\<open>ForbiddenException\<close>
  exactly when the actor owns none of the order's lines, and \<^verbatim>\<open>cancelOrder\<close> fails with
  \<^verbatim>\<open>ForbiddenException\<close> exactly when the actor is not the order's customer; a forbidden
  call leaves the whole store, and so the order, as it was.
\<close>

theorem forbidden_actor:
  assumes "findById s orderId = Some order"
  shows "(fst (updateOrderStatus now s orderId actorId status note) = Inl ForbiddenException
            \<longleftrightarrow> \<not> list_ex (\<lambda>item. oi_vendorId item = actorId) (o_items order))
       \<and> (\<not> list_ex (\<lambda>item. oi_vendorId item = actorId) (o_items order)
            \<longrightarrow> snd (updateOrderStatus now s orderId actorId status note) = s)
       \<and> (fst (cancelOrder now s orderId actorId reason) = Inl ForbiddenException
            \<longleftrightarrow> o_customerId order \<noteq> actorId)
       \<and> (o_customerId order \<noteq> actorId
            \<longrightarrow> snd (cancelOrder now s orderId actorId reason) = s)"
proof -
  have a: "\<not> list_ex (\<lambda>item. oi_vendorId item = actorId) (o_items order)
            \<longrightarrow> snd (updateOrderStatus now s orderId actorId status note) = s"
    using assms by (simp add: updateOrderStatus_def)
  have b: "fst (cancelOrder now s orderId actorId reason) = Inl ForbiddenException
            \<longleftrightarrow> o_customerId order \<noteq> actorId"
    using assms by (simp add: cancelOrder_def Let_def)
  have c: "o_customerId order \<noteq> actorId
            \<longrightarrow> snd (cancelOrder now s orderId actorId reason) = s"
    using assms by (simp add: cancelOrder_def)
  from updateOrderStatus_forbidden [OF assms] a b c show ?thesis by blast
qed

text \<open>
  Z sells nothing in Bob's order and is not its customer: Z can neither ship it nor cancel
  it.
\<close>

theorem forbidden_actor_witness:
  "findById store1 0 = Some (orders store1 ! 0)
   \<and> \<not> list_ex (\<lambda>item. oi_vendorId item = ''Z'') (o_items (orders store1 ! 0))
   \<and> o_customerId (orders store1 ! 0) \<noteq> ''Z''
   \<and> updateOrderStatus now0 store1 0 ''Z'' SHIPPED None = (Inl ForbiddenException, store1)
   \<and> cancelOrder now0 store1 0 ''Z'' None = (Inl ForbiddenException, store1)"
proof -
  have found: "findById store1 0 = Some (orders store1 ! 0)"
    by (simp add: store1_def example_defs createOrder_defs findById_def)
  have stranger: "\<not> list_ex (\<lambda>item. oi_vendorId item = ''Z'') (o_items (orders store1 ! 0))"
    "o_customerId (orders store1 ! 0) \<noteq> ''Z''"
    by (simp_all add: store1_def example_defs createOrder_defs)
  from forbidden_actor [OF found, of now0 "''Z''" SHIPPED None None] stranger
  have "updateOrderStatus now0 store1 0 ''Z'' SHIPPED None = (Inl ForbiddenException, store1)"
    "cancelOrder now0 store1 0 ''Z'' None = (Inl ForbiddenException, store1)"
    by (simp_all add: prod_eq_iff)
  with found stranger show ?thesis by blast
qed

section \<open>Which status changes go through\<close>

lemma cancelOrder_effect:
  assumes "findById s orderId = Some order"
      and "o_customerId order = userId"
      and "o_status order = PENDING \<or> o_status order = CONFIRMED"
  shows "\<exists>order' entry.
           cancelOrder now s orderId userId reason
             = (Inr order',
                save (s\<lparr> products := restore_stock (o_items order) (products s) \<rparr>) orderId order')
         \<and> o_items order' = o_items order
         \<and> o_status order' = CANCELLED
         \<and> o_statusHistory order' = o_statusHistory order @ [entry]
         \<and> h_status entry = CANCELLED"
proof -
  let ?entry = "\<lparr> h_status = CANCELLED, h_timestamp = getTime now,
                  h_note = or_default reason ''Cancelled by customer'' \<rparr>"
  let ?order' = "order\<lparr> o_status := CANCELLED,
                         o_statusHistory := o_statusHistory order @ [?entry] \<rparr>"
  have "cancelOrder now s orderId userId reason
          = (Inr ?order',
             save (s\<lparr> products := restore_stock (o_items order) (products s) \<rparr>) orderId ?order')"
    using assms by (auto simp: cancelOrder_def Let_def)
  moreover have "o_items ?order' = o_items order" "o_status ?order' = CANCELLED"
    "o_statusHistory ?order' = o_statusHistory order @ [?entry]" "h_status ?entry = CANCELLED"
    by simp_all
  ultimately show ?thesis by blast
qed

lemma findById_save_products:
  "findById s orderId = Some order \<Longrightarrow>
     findById (save (s\<lparr> products := ps \<rparr>) orderId order') orderId = Some order'"
  by (auto simp: findById_def save_def split: if_splits)

text \<open>
  Claim C2, as amended. \<^verbatim>\<open>cancelOrder\<close>, called by the order's customer, succeeds exactly
  when the status is \<open>PENDING\<close> or \<open>CONFIRMED\<close> and then stores the status \<open>CANCELLED\<close>; from
  any other status it fails with \<^verbatim>\<open>BadRequestException\<close> and leaves the store unchanged.
  \<^verbatim>\<open>updateOrderStatus\<close> consults no transition table: called by a vendor owning a line, it
  stores whatever status is requested, whatever the current one, and appends one history
  entry with that status. It then returns the stored order; only when the vendor document
  of some line is missing can reading the order back end in a \<^verbatim>\<open>TypeError\<close> instead, after
  the save.
\<close>

theorem status_change_gates:
  assumes "findById s orderId = Some order"
  shows "(o_customerId order = userId \<longrightarrow>
           (if o_status order = PENDING \<or> o_status order = CONFIRMED
            then \<exists>cancelled.
                   fst (cancelOrder now s orderId userId reason) = Inr cancelled
                 \<and> findById (snd (cancelOrder now s orderId userId reason)) orderId = Some cancelled
                 \<and> o_status cancelled = CANCELLED
            else cancelOrder now s orderId userId reason
                   = (Inl (BadRequestException CannotBeCancelled), s)))
       \<and> (list_ex (\<lambda>item. oi_vendorId item = vendorId) (o_items order) \<longrightarrow>
           (\<exists>updated entry.
               findById (snd (updateOrderStatus now s orderId vendorId status note)) orderId
                 = Some updated
             \<and> o_status updated = status
             \<and> o_statusHistory updated = o_statusHistory order @ [entry]
             \<and> h_status entry = status
             \<and> (fst (updateOrderStatus now s orderId vendorId status note) = Inr updated
                \<or> fst (updateOrderStatus now s orderId vendorId status note) = Inl TypeError)
             \<and> (list_all (\<lambda>item. vendors s (oi_vendorId item) \<noteq> None) (o_items order)
                  \<longrightarrow> fst (updateOrderStatus now s orderId vendorId status note) = Inr updated)))"
proof -
  have cancel: "o_customerId order = userId \<longrightarrow>
           (if o_status order = PENDING \<or> o_status order = CONFIRMED
            then \<exists>cancelled.
                   fst (cancelOrder now s orderId userId reason) = Inr cancelled
                 \<and> findById (snd (cancelOrder now s orderId userId reason)) orderId = Some cancelled
                 \<and> o_status cancelled = CANCELLED
            else cancelOrder now s orderId userId reason
                   = (Inl (BadRequestException CannotBeCancelled), s))"
  proof (cases "o_customerId order = userId \<and> (o_status order = PENDING \<or> o_status order = CONFIRMED)")
    case True
    from cancelOrder_effect [of s orderId order userId now reason] assms True
    obtain order' where
      "cancelOrder now s orderId userId reason
             = (Inr order',
                save (s\<lparr> products := restore_stock (o_items order) (products s) \<rparr>) orderId order')"
      "o_status order' = CANCELLED" by blast
    with findById_save_products [OF assms] True show ?thesis by auto
  next
    case False
    with assms show ?thesis by (auto simp: cancelOrder_def)
  qed
  have update: "\<exists>updated entry.
               findById (snd (updateOrderStatus now s orderId vendorId status note)) orderId
                 = Some updated
             \<and> o_status updated = status
             \<and> o_statusHistory updated = o_statusHistory order @ [entry]
             \<and> h_status entry = status
             \<and> (fst (updateOrderStatus now s orderId vendorId status note) = Inr updated
                \<or> fst (updateOrderStatus now s orderId vendorId status note) = Inl TypeError)
             \<and> (list_all (\<lambda>item. vendors s (oi_vendorId item) \<noteq> None) (o_items order)
                  \<longrightarrow> fst (updateOrderStatus now s orderId vendorId status note) = Inr updated)"
    if owner: "list_ex (\<lambda>item. oi_vendorId item = vendorId) (o_items order)"
  proof -
    from updateOrderStatus_effect [OF assms owner, of now status "note"]
    obtain order' entry where
      run: "updateOrderStatus now s orderId vendorId status note
             = (getOrder_vendor (save s orderId order') orderId vendorId, save s orderId order')"
      and items: "o_items order' = o_items order"
      and new: "o_status order' = status" "o_statusHistory order' = o_statusHistory order @ [entry]"
        "h_status entry = status" by blast
    have found: "findById (save s orderId order') orderId = Some order'"
      by (rule findById_save [OF assms])
    have owner': "list_ex (\<lambda>item. oi_vendorId item = vendorId) (o_items order')"
      using owner items by simp
    note allowed = getOrder_vendor_allowed [OF found owner']
    have populated: "getOrder_vendor (save s orderId order') orderId vendorId = Inr order'"
      if "list_all (\<lambda>item. vendors s (oi_vendorId item) \<noteq> None) (o_items order)"
      using getOrder_vendor_populated [OF found owner'] that items
      by (simp add: vendors_save)
    from run found new allowed populated show ?thesis by auto
  qed
  from cancel update show ?thesis by blast
qed

text \<open>
  Claim C2 as stated fails: vendor X moves Bob's pending order straight to \<open>DELIVERED\<close>,
  which the transition table of the specification does not allow; the call succeeds, and
  status and history change.
\<close>

theorem transition_table_counterexample:
  "o_status (orders store1 ! 0) = PENDING
   \<and> \<not> spec_legal_transition PENDING DELIVERED
   \<and> fst (updateOrderStatus now0 store1 0 ''X'' DELIVERED None)
       = Inr (orders (snd (updateOrderStatus now0 store1 0 ''X'' DELIVERED None)) ! 0)
   \<and> o_status (orders (snd (updateOrderStatus now0 store1 0 ''X'' DELIVERED None)) ! 0) = DELIVERED
   \<and> map h_status (o_statusHistory (orders (snd (updateOrderStatus now0 store1 0 ''X'' DELIVERED None)) ! 0))
       = [PENDING, DELIVERED]"
  by (simp add: store1_def example_defs createOrder_defs order_defs Let_def)


text \<open>
  Bob's pending order can be cancelled by Bob and can be set to \<open>DELIVERED\<close> by vendor X;
  once cancelled, it cannot be cancelled again.
\<close>

theorem status_change_gates_witness:
  "findById store1 0 = Some (orders store1 ! 0)
   \<and> o_customerId (orders store1 ! 0) = ''bob''
   \<and> o_status (orders store1 ! 0) = PENDING
   \<and> list_ex (\<lambda>item. oi_vendorId item = ''X'') (o_items (orders store1 ! 0))
   \<and> list_all (\<lambda>item. vendors store1 (oi_vendorId item) \<noteq> None) (o_items (orders store1 ! 0))
   \<and> (\<exists>cancelled. fst (cancelOrder now0 store1 0 ''bob'' None) = Inr cancelled
          \<and> findById store2 0 = Some cancelled \<and> o_status cancelled = CANCELLED)
   \<and> (\<exists>updated. fst (updateOrderStatus now0 store1 0 ''X'' DELIVERED None) = Inr updated
          \<and> o_status updated = DELIVERED)
   \<and> findById store2 0 = Some (orders store2 ! 0)
   \<and> o_customerId (orders store2 ! 0) = ''bob''
   \<and> o_status (orders store2 ! 0) = CANCELLED
   \<and> cancelOrder now0 store2 0 ''bob'' None = (Inl (BadRequestException CannotBeCancelled), store2)"
proof -
  have found1: "findById store1 0 = Some (orders store1 ! 0)"
    by (simp add: store1_def example_defs createOrder_defs findById_def)
  have facts1: "o_customerId (orders store1 ! 0) = ''bob''" "o_status (orders store1 ! 0) = PENDING"
    "list_ex (\<lambda>item. oi_vendorId item = ''X'') (o_items (orders store1 ! 0))"
    "list_all (\<lambda>item. vendors store1 (oi_vendorId item) \<noteq> None) (o_items (orders store1 ! 0))"
    by (simp_all add: store1_def example_defs createOrder_defs)
  have found2: "findById store2 0 = Some (orders store2 ! 0)"
    by (simp add: store2_def store1_def example_defs createOrder_defs order_defs Let_def)
  have facts2: "o_customerId (orders store2 ! 0) = ''bob''" "o_status (orders store2 ! 0) = CANCELLED"
    by (simp_all add: store2_def store1_def example_defs createOrder_defs order_defs Let_def)
  from status_change_gates [OF found1, of "''bob''" now0 None "''X''" DELIVERED None] facts1
  have first: "\<exists>cancelled. fst (cancelOrder now0 store1 0 ''bob'' None) = Inr cancelled
          \<and> findById store2 0 = Some cancelled \<and> o_status cancelled = CANCELLED"
    "\<exists>updated. fst (updateOrderStatus now0 store1 0 ''X'' DELIVERED None) = Inr updated
          \<and> o_status updated = DELIVERED"
    by (auto simp: store2_def)
  from status_change_gates [OF found2, of "''bob''" now0 None "''X''" DELIVERED None] facts2
  have second: "cancelOrder now0 store2 0 ''bob'' None
                  = (Inl (BadRequestException CannotBeCancelled), store2)"
    by simp
  from found1 facts1 first found2 facts2 second show ?thesis by blast
qed

section \<open>The status history only grows\<close>

lemma history_step_append:
  assumes "os' = os @ [doc]" "history_ok doc"
  shows "length os \<le> length os'
       \<and> (\<forall>i<length os. prefix (o_statusHistory (os ! i)) (o_statusHistory (os' ! i)))
       \<and> (list_all history_ok os \<longrightarrow> list_all history_ok os')"
  using assms by (simp add: nth_append)

lemma history_step_update:
  assumes "os' = os[k := order']" "k < length os"
      and "o_statusHistory order' = o_statusHistory (os ! k) @ [entry]"
      and "h_status entry = o_status order'"
  shows "length os \<le> length os'
       \<and> (\<forall>i<length os. prefix (o_statusHistory (os ! i)) (o_statusHistory (os' ! i)))
       \<and> (list_all history_ok os \<longrightarrow> list_all history_ok os')"
proof -
  have ok: "history_ok order'" using assms(3,4) by (simp add: history_ok_def)
  have "prefix (o_statusHistory (os ! i)) (o_statusHistory (os' ! i))" if "i < length os" for i
    using that assms(1,3) by (cases "i = k") simp_all
  moreover have "list_all history_ok os'" if "list_all history_ok os"
    using that ok assms(1) by (auto simp: list_all_iff dest: set_update_subset_insert [THEN subsetD])
  ultimately show ?thesis using assms(1) by simp
qed

lemma createOrder_prepare_history:
  "createOrder_prepare now s userId dto = Inr doc \<Longrightarrow> history_ok doc"
  by (auto simp: createOrder_prepare_def history_ok_def Let_def split: option.splits if_splits sum.splits)

lemma createOrder_orders:
  "orders (snd (createOrder now s userId dto)) = orders s
   \<or> (\<exists>doc. orders (snd (createOrder now s userId dto)) = orders s @ [doc] \<and> history_ok doc)"
proof (cases "createOrder_prepare now s userId dto")
  case (Inl e)
  then show ?thesis by (simp add: createOrder_def)
next
  case (Inr doc)
  with createOrder_prepare_history [OF Inr] show ?thesis
    by (simp add: createOrder_def createOrder_commit_def Let_def)
qed

lemma findById_Some: "findById s orderId = Some order \<longleftrightarrow> orderId < length (orders s) \<and> order = orders s ! orderId"
  by (auto simp: findById_def)

lemma updateOrderStatus_orders:
  "orders (snd (updateOrderStatus now s orderId vendorId status note)) = orders s
   \<or> (\<exists>order' entry. orderId < length (orders s)
         \<and> orders (snd (updateOrderStatus now s orderId vendorId status note))
             = (orders s)[orderId := order']
         \<and> o_statusHistory order' = o_statusHistory (orders s ! orderId) @ [entry]
         \<and> h_status entry = o_status order')"
proof (cases "findById s orderId")
  case None
  then show ?thesis by (simp add: updateOrderStatus_def)
next
  case (Some order)
  show ?thesis
  proof (cases "list_ex (\<lambda>item. oi_vendorId item = vendorId) (o_items order)")
    case False
    with Some show ?thesis by (simp add: updateOrderStatus_def)
  next
    case True
    from updateOrderStatus_effect [OF Some True, of now status "note"]
    obtain order' entry where
      "updateOrderStatus now s orderId vendorId status note
         = (getOrder_vendor (save s orderId order') orderId vendorId, save s orderId order')"
      "o_status order' = status" "o_statusHistory order' = o_statusHistory order @ [entry]"
      "h_status entry = status" by blast
    with Some show ?thesis by (auto simp: findById_Some save_def)
  qed
qed

lemma cancelOrder_orders:
  "orders (snd (cancelOrder now s orderId userId reason)) = orders s
   \<or> (\<exists>order' entry. orderId < length (orders s)
         \<and> orders (snd (cancelOrder now s orderId userId reason)) = (orders s)[orderId := order']
         \<and> o_statusHistory order' = o_statusHistory (orders s ! orderId) @ [entry]
         \<and> h_status entry = o_status order')"
proof (cases "findById s orderId")
  case None
  then show ?thesis by (simp add: cancelOrder_def)
next
  case (Some order)
  show ?thesis
  proof (cases "o_customerId order = userId \<and> (o_status order = PENDING \<or> o_status order = CONFIRMED)")
    case False
    with Some show ?thesis by (auto simp: cancelOrder_def)
  next
    case True
    from cancelOrder_effect [of s orderId order userId now reason] Some True
    obtain order' entry where
      "cancelOrder now s orderId userId reason
         = (Inr order',
            save (s\<lparr> products := restore_stock (o_items order) (products s) \<rparr>) orderId order')"
      "o_status order' = CANCELLED" "o_statusHistory order' = o_statusHistory order @ [entry]"
      "h_status entry = CANCELLED" by blast
    with Some show ?thesis by (auto simp: findById_Some save_def)
  qed
qed

lemma handle_history:
  "length (orders s) \<le> length (orders (handle now s r))
   \<and> (\<forall>i<length (orders s).
         prefix (o_statusHistory (orders s ! i)) (o_statusHistory (orders (handle now s r) ! i)))
   \<and> (list_all history_ok (orders s) \<longrightarrow> list_all history_ok (orders (handle now s r)))"
proof (cases r)
  case (PostOrder userId dto)
  from createOrder_orders [of now s userId dto] show ?thesis
  proof
    assume "orders (snd (createOrder now s userId dto)) = orders s"
    with PostOrder show ?thesis by simp
  next
    assume "\<exists>doc. orders (snd (createOrder now s userId dto)) = orders s @ [doc] \<and> history_ok doc"
    then obtain doc where "orders (snd (createOrder now s userId dto)) = orders s @ [doc]"
      "history_ok doc" by blast
    from history_step_append [OF this] PostOrder show ?thesis by simp
  qed
next
  case (PatchStatus orderId vendorId status n)
  from updateOrderStatus_orders [of now s orderId vendorId status n] show ?thesis
  proof
    assume "orders (snd (updateOrderStatus now s orderId vendorId status n)) = orders s"
    with PatchStatus show ?thesis by simp
  next
    assume "\<exists>order' entry. orderId < length (orders s)
         \<and> orders (snd (updateOrderStatus now s orderId vendorId status n))
             = (orders s)[orderId := order']
         \<and> o_statusHistory order' = o_statusHistory (orders s ! orderId) @ [entry]
         \<and> h_status entry = o_status order'"
    then obtain order' entry where "orders (snd (updateOrderStatus now s orderId vendorId status n))
             = (orders s)[orderId := order']" "orderId < length (orders s)"
         "o_statusHistory order' = o_statusHistory (orders s ! orderId) @ [entry]"
         "h_status entry = o_status order'" by blast
    from history_step_update [OF this] PatchStatus show ?thesis by simp
  qed
next
  case (PatchCancel orderId userId reason)
  from cancelOrder_orders [of now s orderId userId reason] show ?thesis
  proof
    assume "orders (snd (cancelOrder now s orderId userId reason)) = orders s"
    with PatchCancel show ?thesis by simp
  next
    assume "\<exists>order' entry. orderId < length (orders s)
         \<and> orders (snd (cancelOrder now s orderId userId reason)) = (orders s)[orderId := order']
         \<and> o_statusHistory order' = o_statusHistory (orders s ! orderId) @ [entry]
         \<and> h_status entry = o_status order'"
    then obtain order' entry where "orders (snd (cancelOrder now s orderId userId reason))
             = (orders s)[orderId := order']" "orderId < length (orders s)"
         "o_statusHistory order' = o_statusHistory (orders s ! orderId) @ [entry]"
         "h_status entry = o_status order'" by blast
    from history_step_update [OF this] PatchCancel show ?thesis by simp
  qed
qed

text \<open>
  Claim C7. Start from a store in which the last history entry of every order carries the
  order's status (the empty order collection is one), and serve any sequence of
  \<^verbatim>\<open>createOrder\<close>, \<^verbatim>\<open>updateOrderStatus\<close> and \<^verbatim>\<open>cancelOrder\<close> requests, failing or not. Then
  no order disappears, the status history of every order that was there is a prefix of its
  history afterwards (no entry removed or rewritten), and in the resulting store the last
  history entry of every order again carries the order's status.
\<close>

theorem statusHistory_append_only:
  assumes "list_all history_ok (orders s)"
  shows "length (orders s) \<le> length (orders (serve s requests))
       \<and> (\<forall>i<length (orders s).
             prefix (o_statusHistory (orders s ! i)) (o_statusHistory (orders (serve s requests) ! i)))
       \<and> list_all history_ok (orders (serve s requests))"
  using assms
proof (induction requests arbitrary: s)
  case Nil
  then show ?case by simp
next
  case (Cons nr rest)
  obtain now r where nr: "nr = (now, r)" by (cases nr)
  let ?s1 = "handle now s r"
  note step = handle_history [of s now r]
  from step Cons.prems have ok1: "list_all history_ok (orders ?s1)" by blast
  note tail = Cons.IH [OF ok1]
  have "prefix (o_statusHistory (orders s ! i)) (o_statusHistory (orders (serve ?s1 rest) ! i))"
    if "i < length (orders s)" for i
  proof -
    from that step have "i < length (orders ?s1)" by simp
    with tail have "prefix (o_statusHistory (orders ?s1 ! i)) (o_statusHistory (orders (serve ?s1 rest) ! i))"
      by blast
    moreover from that step have "prefix (o_statusHistory (orders s ! i)) (o_statusHistory (orders ?s1 ! i))"
      by blast
    ultimately show ?thesis by (rule prefix_order.trans [rotated])
  qed
  moreover from step tail have "length (orders s) \<le> length (orders (serve ?s1 rest))" by linarith
  ultimately show ?case using tail by (simp add: nr)
qed


text \<open>
  Bob's pending order is confirmed by vendor X and cancelled by Bob, then Alice orders: the
  history of Bob's order grows from \<open>PENDING\<close> to \<open>PENDING, CONFIRMED, CANCELLED\<close>.
\<close>

theorem statusHistory_append_only_witness:
  "list_all history_ok (orders store1)
   \<and> map h_status (o_statusHistory (orders store1 ! 0)) = [PENDING]
   \<and> map h_status (o_statusHistory (orders (serve store1
         [(now0, PatchStatus 0 ''X'' CONFIRMED None), (now0, PatchCancel 0 ''bob'' None),
          (now0, PostOrder ''alice'' dto0)]) ! 0)) = [PENDING, CONFIRMED, CANCELLED]
   \<and> length (orders store1) \<le> length (orders (serve store1
         [(now0, PatchStatus 0 ''X'' CONFIRMED None), (now0, PatchCancel 0 ''bob'' None),
          (now0, PostOrder ''alice'' dto0)]))
   \<and> prefix (o_statusHistory (orders store1 ! 0))
         (o_statusHistory (orders (serve store1
            [(now0, PatchStatus 0 ''X'' CONFIRMED None), (now0, PatchCancel 0 ''bob'' None),
             (now0, PostOrder ''alice'' dto0)]) ! 0))
   \<and> list_all history_ok (orders (serve store1
         [(now0, PatchStatus 0 ''X'' CONFIRMED None), (now0, PatchCancel 0 ''bob'' None),
          (now0, PostOrder ''alice'' dto0)]))"
proof -
  have ok: "list_all history_ok (orders store1)"
    by (simp add: store1_def example_defs createOrder_defs history_ok_def)
  have before: "map h_status (o_statusHistory (orders store1 ! 0)) = [PENDING]"
    by (simp add: store1_def example_defs createOrder_defs)
  have after: "map h_status (o_statusHistory (orders (serve store1
         [(now0, PatchStatus 0 ''X'' CONFIRMED None), (now0, PatchCancel 0 ''bob'' None),
          (now0, PostOrder ''alice'' dto0)]) ! 0)) = [PENDING, CONFIRMED, CANCELLED]"
    by (simp add: store1_def example_defs createOrder_defs order_defs Let_def)
  have one: "0 < length (orders store1)"
    by (simp add: store1_def example_defs createOrder_defs)
  from statusHistory_append_only [OF ok] ok before after one show ?thesis
    by blast
qed

section \<open>What the vendor statistics count\<close>

lemma reduce_totals:
  "foldl (\<lambda>sum item. sum + oi_total item) acc orderItems = acc + sum_list (map oi_total orderItems)"
  by (induction orderItems arbitrary: acc) simp_all

lemma getVendorOrderStats_loop_eq:
  "getVendorOrderStats_loop vendorId os (totalRevenue, pending, processing, shipped, delivered) =
     (totalRevenue + sum_list (map (vendor_revenue vendorId) os),
      pending + length (filter (\<lambda>order. o_status order = PENDING) os),
      processing + length (filter (\<lambda>order. o_status order = PROCESSING) os),
      shipped + length (filter (\<lambda>order. o_status order = SHIPPED) os),
      delivered + length (filter (\<lambda>order. o_status order = DELIVERED) os))"
  by (induction os arbitrary: totalRevenue pending processing shipped delivered)
     (simp_all add: Let_def reduce_totals vendor_revenue_def)

lemma getVendorOrderStats_eq:
  "getVendorOrderStats s vendorId =
     \<lparr> stats_totalOrders = length (find_vendor_orders s vendorId),
       stats_totalRevenue = sum_list (map (vendor_revenue vendorId) (find_vendor_orders s vendorId)),
       stats_pending = length (filter (\<lambda>order. o_status order = PENDING) (find_vendor_orders s vendorId)),
       stats_processing = length (filter (\<lambda>order. o_status order = PROCESSING) (find_vendor_orders s vendorId)),
       stats_shipped = length (filter (\<lambda>order. o_status order = SHIPPED) (find_vendor_orders s vendorId)),
       stats_delivered = length (filter (\<lambda>order. o_status order = DELIVERED) (find_vendor_orders s vendorId)) \<rparr>"
  by (simp add: getVendorOrderStats_def Let_def getVendorOrderStats_loop_eq)

lemma vendor_revenue_none:
  "\<not> list_ex (\<lambda>item. oi_vendorId item = vendorId) (o_items order) \<Longrightarrow> vendor_revenue vendorId order = 0"
proof -
  assume "\<not> list_ex (\<lambda>item. oi_vendorId item = vendorId) (o_items order)"
  then have "filter (\<lambda>item. oi_vendorId item = vendorId) (o_items order) = []"
    by (auto simp: list_ex_iff filter_empty_conv)
  then show ?thesis by (simp add: vendor_revenue_def)
qed

lemma vendor_revenue_all_orders:
  "sum_list (map (vendor_revenue vendorId)
      (filter (\<lambda>order. list_ex (\<lambda>item. oi_vendorId item = vendorId) (o_items order)) os))
   = sum_list (map (vendor_revenue vendorId) os)"
  by (induction os) (simp_all add: vendor_revenue_none)

text \<open>
  Claim C8. The \<open>totalRevenue\<close> that \<^verbatim>\<open>getVendorOrderStats\<close> returns for a vendor is the sum,
  over the orders with at least one line of that vendor, of the totals of that vendor's own
  lines. Lines of other vendors never enter it: two order collections that agree on the
  vendor's own lines, order by order, give the same revenue, whatever else the orders
  contain.
\<close>

theorem vendor_revenue_own_lines_only:
  "stats_totalRevenue (getVendorOrderStats s vendorId)
     = sum_list (map (\<lambda>order. sum_list (map oi_total
                        (filter (\<lambda>item. oi_vendorId item = vendorId) (o_items order))))
         (filter (\<lambda>order. list_ex (\<lambda>item. oi_vendorId item = vendorId) (o_items order)) (orders s)))
   \<and> (map (\<lambda>order. filter (\<lambda>item. oi_vendorId item = vendorId) (o_items order)) (orders t)
        = map (\<lambda>order. filter (\<lambda>item. oi_vendorId item = vendorId) (o_items order)) (orders s)
       \<longrightarrow> stats_totalRevenue (getVendorOrderStats t vendorId)
            = stats_totalRevenue (getVendorOrderStats s vendorId))"
proof -
  have lines: "map (vendor_revenue vendorId) os
                 = map (\<lambda>lines. sum_list (map oi_total lines))
                     (map (\<lambda>order. filter (\<lambda>item. oi_vendorId item = vendorId) (o_items order)) os)"
    for os by (simp add: vendor_revenue_def)
  have all: "stats_totalRevenue (getVendorOrderStats u vendorId)
               = sum_list (map (\<lambda>lines. sum_list (map oi_total lines))
                   (map (\<lambda>order. filter (\<lambda>item. oi_vendorId item = vendorId) (o_items order))
                      (orders u)))" for u
  proof -
    have "stats_totalRevenue (getVendorOrderStats u vendorId)
            = sum_list (map (vendor_revenue vendorId) (orders u))"
      by (simp add: getVendorOrderStats_eq find_vendor_orders_def vendor_revenue_all_orders)
    then show ?thesis by (simp only: lines)
  qed
  have "stats_totalRevenue (getVendorOrderStats t vendorId)
            = stats_totalRevenue (getVendorOrderStats s vendorId)"
    if "map (\<lambda>order. filter (\<lambda>item. oi_vendorId item = vendorId) (o_items order)) (orders t)
        = map (\<lambda>order. filter (\<lambda>item. oi_vendorId item = vendorId) (o_items order)) (orders s)"
    using that by (simp only: all)
  moreover have revenue: "map (vendor_revenue vendorId) os
                   = map (\<lambda>order. sum_list (map oi_total
                        (filter (\<lambda>item. oi_vendorId item = vendorId) (o_items order)))) os"
    for os by (simp add: vendor_revenue_def)
  have "stats_totalRevenue (getVendorOrderStats s vendorId)
     = sum_list (map (\<lambda>order. sum_list (map oi_total
                        (filter (\<lambda>item. oi_vendorId item = vendorId) (o_items order))))
         (filter (\<lambda>order. list_ex (\<lambda>item. oi_vendorId item = vendorId) (o_items order)) (orders s)))"
    unfolding getVendorOrderStats_eq find_vendor_orders_def revenue by simp
  ultimately show ?thesis by blast
qed

text \<open>
  Dave's order has a line of vendor X with total 100 and a line of vendor Y with total 50:
  the revenue of X is 100, that of Y is 50, and dropping Y's line from the order leaves the
  revenue of X at 100.
\<close>

theorem vendor_revenue_own_lines_only_witness:
  "stats_totalRevenue (getVendorOrderStats store3 ''X'') = 100
   \<and> stats_totalRevenue (getVendorOrderStats store3 ''Y'') = 50
   \<and> map (\<lambda>order. filter (\<lambda>item. oi_vendorId item = ''X'') (o_items order))
        (orders (store3\<lparr> orders := map (\<lambda>order. order\<lparr> o_items :=
                     filter (\<lambda>item. oi_vendorId item = ''X'') (o_items order) \<rparr>) (orders store3) \<rparr>))
      = map (\<lambda>order. filter (\<lambda>item. oi_vendorId item = ''X'') (o_items order)) (orders store3)
   \<and> stats_totalRevenue (getVendorOrderStats
        (store3\<lparr> orders := map (\<lambda>order. order\<lparr> o_items :=
                     filter (\<lambda>item. oi_vendorId item = ''X'') (o_items order) \<rparr>) (orders store3) \<rparr>)
        ''X'') = 100"
proof -
  let ?t = "store3\<lparr> orders := map (\<lambda>order. order\<lparr> o_items :=
                     filter (\<lambda>item. oi_vendorId item = ''X'') (o_items order) \<rparr>) (orders store3) \<rparr>"
  have x: "stats_totalRevenue (getVendorOrderStats store3 ''X'') = 100"
    by (simp add: getVendorOrderStats_def find_vendor_orders_def Let_def
          store3_def example_defs createOrder_defs)
  have y: "stats_totalRevenue (getVendorOrderStats store3 ''Y'') = 50"
    by (simp add: getVendorOrderStats_def find_vendor_orders_def Let_def
          store3_def example_defs createOrder_defs)
  have same: "map (\<lambda>order. filter (\<lambda>item. oi_vendorId item = ''X'') (o_items order)) (orders ?t)
      = map (\<lambda>order. filter (\<lambda>item. oi_vendorId item = ''X'') (o_items order)) (orders store3)"
    by (simp add: comp_def)
  from vendor_revenue_own_lines_only [of store3 "''X''" ?t] same x
  have "stats_totalRevenue (getVendorOrderStats ?t ''X'') = 100" by simp
  with x y same show ?thesis by blast
qed

lemma status_partition:
  "length os
     = length (filter (\<lambda>order. o_status order = PENDING) os)
     + length (filter (\<lambda>order. o_status order = PROCESSING) os)
     + length (filter (\<lambda>order. o_status order = SHIPPED) os)
     + length (filter (\<lambda>order. o_status order = DELIVERED) os)
     + length (filter (\<lambda>order. o_status order = CONFIRMED \<or> o_status order = CANCELLED) os)"
proof (induction os)
  case Nil
  show ?case by simp
next
  case (Cons order rest)
  then show ?case by (cases "o_status order") simp_all
qed

text \<open>
  Claim C10. Over the orders with a line of the vendor, \<^verbatim>\<open>getVendorOrderStats\<close> returns their
  number as \<open>totalOrders\<close>, the sum of the vendor's line totals over all of them, whatever
  their status, as \<open>totalRevenue\<close>, and the numbers of \<open>PENDING\<close>, \<open>PROCESSING\<close>, \<open>SHIPPED\<close>
  and \<open>DELIVERED\<close> orders as the four buckets. Orders that are \<open>CONFIRMED\<close> or \<open>CANCELLED\<close>
  are in no bucket: \<open>totalOrders\<close> is the sum of the four buckets plus their number.
\<close>

theorem vendor_stats_buckets:
  "stats_totalOrders (getVendorOrderStats s vendorId) = length (find_vendor_orders s vendorId)
   \<and> stats_totalRevenue (getVendorOrderStats s vendorId)
       = sum_list (map (vendor_revenue vendorId) (find_vendor_orders s vendorId))
   \<and> stats_pending (getVendorOrderStats s vendorId)
       = length (filter (\<lambda>order. o_status order = PENDING) (find_vendor_orders s vendorId))
   \<and> stats_processing (getVendorOrderStats s vendorId)
       = length (filter (\<lambda>order. o_status order = PROCESSING) (find_vendor_orders s vendorId))
   \<and> stats_shipped (getVendorOrderStats s vendorId)
       = length (filter (\<lambda>order. o_status order = SHIPPED) (find_vendor_orders s vendorId))
   \<and> stats_delivered (getVendorOrderStats s vendorId)
       = length (filter (\<lambda>order. o_status order = DELIVERED) (find_vendor_orders s vendorId))
   \<and> stats_totalOrders (getVendorOrderStats s vendorId)
       = stats_pending (getVendorOrderStats s vendorId)
       + stats_processing (getVendorOrderStats s vendorId)
       + stats_shipped (getVendorOrderStats s vendorId)
       + stats_delivered (getVendorOrderStats s vendorId)
       + length (filter (\<lambda>order. o_status order = CONFIRMED \<or> o_status order = CANCELLED)
           (find_vendor_orders s vendorId))"
  using status_partition [of "find_vendor_orders s vendorId"]
  by (simp add: getVendorOrderStats_eq)


text \<open>
  After Dave has cancelled his order, vendor X still has one order and revenue 100, and
  every bucket is 0.
\<close>

theorem vendor_stats_buckets_witness:
  "map o_status (find_vendor_orders store4 ''X'') = [CANCELLED]
   \<and> stats_totalOrders (getVendorOrderStats store4 ''X'') = 1
   \<and> stats_totalRevenue (getVendorOrderStats store4 ''X'') = 100
   \<and> stats_pending (getVendorOrderStats store4 ''X'') = 0
   \<and> stats_processing (getVendorOrderStats store4 ''X'') = 0
   \<and> stats_shipped (getVendorOrderStats store4 ''X'') = 0
   \<and> stats_delivered (getVendorOrderStats store4 ''X'') = 0"
proof -
  have os: "map (\<lambda>order. (o_status order, map (\<lambda>i. (oi_vendorId i, oi_total i)) (o_items order)))
              (orders store4) = [(CANCELLED, [(''X'', 100), (''Y'', 50)])]"
    by (simp add: store4_def store3_def example_defs createOrder_defs order_defs Let_def)
  then obtain order where one: "orders store4 = [order]" and st: "o_status order = CANCELLED"
    and items: "map (\<lambda>i. (oi_vendorId i, oi_total i)) (o_items order) = [(''X'', 100), (''Y'', 50)]"
    by auto
  from items obtain a b where ab: "o_items order = [a, b]" "oi_vendorId a = ''X''" "oi_total a = 100"
    "oi_vendorId b = ''Y''" "oi_total b = 50" by auto
  have vo: "find_vendor_orders store4 ''X'' = [order]"
    by (simp add: find_vendor_orders_def one ab)
  have rev: "vendor_revenue ''X'' order = 100"
    by (simp add: vendor_revenue_def ab)
  from vendor_stats_buckets [of store4 "''X''"] show ?thesis
    by (simp add: vo st rev)
qed

section \<open>Order numbers under concurrent commits\<close>

lemma generateOrderNumber_count:
  "length (orders s) = length (orders t) \<Longrightarrow> generateOrderNumber now s = generateOrderNumber now t"
  by (simp add: generateOrderNumber_def)

text \<open>
  Claim C5. The claim asks for a sequence that does not come from counting the orders, and
  for order numbers that never collide. \<^verbatim>\<open>generateOrderNumber\<close> takes the sequence from
  \<^verbatim>\<open>countDocuments() + 1\<close>. The calls of Alice and Dave on the same day, both counting
  before either inserts, both generate the number \<open>ORD20261102000001\<close>, and both orders are
  stored under it; served one after the other, the same two calls get the numbers 1 and 2.
\<close>

theorem order_number_collision:
  "map_sum id o_orderNumber (createOrder_prepare now0 store0 ''alice'' dto0)
     = Inr ''ORD20261102000001''
   \<and> map_sum id o_orderNumber (createOrder_prepare now0 store0 ''dave'' dto0)
     = Inr ''ORD20261102000001''
   \<and> map_option (\<lambda>s. map o_orderNumber (orders s))
     (createOrder_concurrently now0 store0 ''alice'' dto0 ''dave'' dto0)
     = Some [''ORD20261102000001'', ''ORD20261102000001'']
   \<and> map o_orderNumber
        (orders (snd (createOrder now0 (snd (createOrder now0 store0 ''alice'' dto0)) ''dave'' dto0)))
     = [''ORD20261102000001'', ''ORD20261102000002'']"
  by code_simp

section \<open>Merging a guest cart\<close>











end
